theory Spec2Isabelle
  imports Complex_Main
begin

section \<open>Numeric helpers (lampshade/utils.py)\<close>

text \<open>
  Python floats are modelled as the real numbers, Python ints as \<open>int\<close>.
  An int used in float arithmetic is converted with \<open>real_of_int\<close>, as Python does.
\<close>

definition lerp :: "real \<Rightarrow> real \<Rightarrow> real \<Rightarrow> real" where
  "lerp a b t = a * (1 - t) + b * t"

definition clamp :: "real \<Rightarrow> real \<Rightarrow> real \<Rightarrow> real" where
  "clamp x lo hi = max lo (min hi x)"

text \<open>\<open>math.radians\<close>: degrees to radians.\<close>

definition radians :: "real \<Rightarrow> real" where
  "radians d = d * pi / 180"

section \<open>Parameter model (lampshade/params.py)\<close>

record Params =
  mountCylinderOuterDiameter :: real
  mountCylinderHeight :: real
  transitionHeight :: real
  transitionWidth :: real
  overhangAngle :: int
  topDiameterMin :: int
  topDiameterMax :: int
  middleDiameterMin :: int
  middleDiameterMax :: int
  bottomDiameterMin :: int
  bottomDiameterMax :: int
  overhangAngleMin :: int
  overhangAngleMax :: int
  cylinderHeightMin :: int
  cylinderHeightMax :: int
  featureCountMin :: int
  featureCountMax :: int
  detailMin :: int
  detailMax :: int
  featureDepthMin :: real
  featureDepthMax :: real
  topDiameter :: int
  middleDiameter :: int
  bottomDiameter :: int
  cylinderHeight :: int
  featureCount :: int
  featureDepth :: real
  designMode :: int
  interpolation :: int
  detail :: int

text \<open>The dataclass defaults.\<close>

definition default_params :: Params where
  "default_params = \<lparr>
     mountCylinderOuterDiameter = 13,
     mountCylinderHeight = 11 / 2,
     transitionHeight = 15,
     transitionWidth = 0,
     overhangAngle = 30,
     topDiameterMin = 16,
     topDiameterMax = 100,
     middleDiameterMin = 30,
     middleDiameterMax = 120,
     bottomDiameterMin = 30,
     bottomDiameterMax = 120,
     overhangAngleMin = 30,
     overhangAngleMax = 80,
     cylinderHeightMin = 50,
     cylinderHeightMax = 120,
     featureCountMin = 1,
     featureCountMax = 10,
     detailMin = 25,
     detailMax = 300,
     featureDepthMin = 0,
     featureDepthMax = 4,
     topDiameter = 30,
     middleDiameter = 70,
     bottomDiameter = 60,
     cylinderHeight = 80,
     featureCount = 6,
     featureDepth = 2,
     designMode = 1,
     interpolation = 0,
     detail = 120 \<rparr>"

definition update_transition :: "Params \<Rightarrow> Params" where
  "update_transition P =
     (let P1 = P\<lparr>transitionWidth :=
                  (real_of_int (topDiameter P) - mountCylinderOuterDiameter P) / 2\<rparr>
      in P1\<lparr>transitionHeight :=
              max 0 (transitionWidth P1) * tan (radians (real_of_int (overhangAngle P1)))\<rparr>)"

text \<open>The local \<open>smallestMainCylinderRadius\<close> of \<open>update_feature_depth_max\<close>.\<close>

definition smallestMainCylinderRadius :: "Params \<Rightarrow> real" where
  "smallestMainCylinderRadius P =
     min (real_of_int (topDiameter P) + transitionWidth P)
         (min (real_of_int (bottomDiameter P)) (real_of_int (middleDiameter P))) / 2"

definition update_feature_depth_max :: "Params \<Rightarrow> Params" where
  "update_feature_depth_max P =
     (let outerRadius = mountCylinderOuterDiameter P / 2;
          P1 = P\<lparr>featureDepthMax :=
                  min (max 0 (smallestMainCylinderRadius P - outerRadius)) (featureDepthMax P)\<rparr>
      in P1\<lparr>featureDepth :=
              clamp (featureDepth P1) (featureDepthMin P1)
                    (max (featureDepthMin P1) (featureDepthMax P1))\<rparr>)"

section \<open>Radial profile and pattern displacement (lampshade/geometry.py)\<close>

definition quadratic_profile :: "real \<Rightarrow> Params \<Rightarrow> real" where
  "quadratic_profile u P =
     (if interpolation P = 1 then
        2 * (u - 1) * (u - 1 / 2) * (real_of_int (topDiameter P) / 2)
        - 4 * (u - 1) * u * (real_of_int (middleDiameter P) / 2)
        + 2 * u * (u - 1 / 2) * (real_of_int (bottomDiameter P) / 2)
      else if interpolation P = 2 then
        (if u \<le> 1 / 2 then
           (let t = u / (1 / 2)
            in lerp (real_of_int (topDiameter P) / 2) (real_of_int (middleDiameter P) / 2) t)
         else
           (let t = (u - 1 / 2) / (1 / 2)
            in lerp (real_of_int (middleDiameter P) / 2) (real_of_int (bottomDiameter P) / 2) t))
      else
        (let t = u
         in (1 - t) * (1 - t) * (real_of_int (topDiameter P) / 2)
            + 2 * (1 - t) * t * (real_of_int (middleDiameter P) / 2)
            + t * t * (real_of_int (bottomDiameter P) / 2)))"

definition design_offset :: "real \<Rightarrow> real \<Rightarrow> Params \<Rightarrow> real" where
  "design_offset u v P =
     (if designMode P \<le> 0 then 0
      else
        (let fd = featureDepth P;
             fc = real_of_int (featureCount P);
             m = designMode P
         in if m = 1 then fd * sin (fc * pi * u) * cos (fc * v)
            else if m = 2 then fd * sin (fc * (v + pi * u))
            else if m = 3 then fd * \<bar>sin (fc * v)\<bar>
            else if m = 4 then fd * (\<bar>sin (fc * pi * u)\<bar> + \<bar>sin (fc * v)\<bar>)
            else if m = 5 then fd * sin (fc * (v + u)) * sin (fc * (v - u))
            else if m = 6 then fd * sin (fc * (v + (1 / 2) * sin (2 * pi * u)))
            else if m = 7 then fd * (\<bar>sin (fc * v)\<bar> - \<bar>sin (fc * pi * u)\<bar>)
            else if m = 8 then
              fd * (1 / 2) * (sin (fc * v) + sin ((fc + 1) * v + 2 * pi * u))
            else if m = 9 then fd * (7 / 10) * cos (fc * 2 * pi * u)
            else if m = 10 then
              (let phase = fc * u
               in fd * (8 / 10) * \<bar>2 * (phase - real_of_int \<lfloor>phase + 1 / 2\<rfloor>)\<bar>)
            else if m = 11 then fd * (9 / 10) * \<bar>sin (fc * pi * u + v)\<bar>
            else if m = 12 then
              (let d = cos (fc * 2 * pi * u + 2 * v) + (7 / 10) * sin (fc * v + u * (27 / 10))
               in fd * (1 / 2) * d)
            else 0))"

section \<open>Mesh construction (lampshade/geometry.py)\<close>

text \<open>A vertex is the three-element array \<open>[x, y, z]\<close>; a face is a triple of indices.\<close>

type_synonym vertex = "real \<times> real \<times> real"

type_synonym face = "int \<times> int \<times> int"

definition vx :: "vertex \<Rightarrow> real" where
  "vx p = fst p"

definition vy :: "vertex \<Rightarrow> real" where
  "vy p = fst (snd p)"

definition vz :: "vertex \<Rightarrow> real" where
  "vz p = snd (snd p)"

definition compute_outer_vertex :: "real \<Rightarrow> real \<Rightarrow> Params \<Rightarrow> vertex" where
  "compute_outer_vertex u v P =
     (let baseR = quadratic_profile u P;
          offset = design_offset u v P;
          r = max 0 (baseR + offset);
          x = r * cos v;
          z = r * sin v;
          y = lerp (real_of_int (cylinderHeight P) / 2) (- real_of_int (cylinderHeight P) / 2) u
      in (x, y, z))"

text \<open>
  The only operation of the builder that can raise is the float division by
  \<open>float(detail)\<close>; it is modelled with an explicit error result.
\<close>

datatype error = ZeroDivisionError

definition truediv :: "real \<Rightarrow> real \<Rightarrow> error + real" where
  "truediv a b = (if b = 0 then Inl ZeroDivisionError else Inr (a / b))"

definition bind_err :: "error + 'a \<Rightarrow> ('a \<Rightarrow> error + 'b) \<Rightarrow> error + 'b" where
  "bind_err r f = (case r of Inl e \<Rightarrow> Inl e | Inr x \<Rightarrow> f x)"

text \<open>The two buffers \<open>vertices\<close> and \<open>faces\<close> that the nested helpers append to.\<close>

record mesh =
  vertices :: "vertex list"
  faces :: "face list"

definition empty_mesh :: mesh where
  "empty_mesh = \<lparr>vertices = [], faces = []\<rparr>"

definition add_vertex :: "vertex \<Rightarrow> mesh \<Rightarrow> int \<times> mesh" where
  "add_vertex p st =
     (let st' = st\<lparr>vertices := vertices st @ [p]\<rparr>
      in (int (length (vertices st')) - 1, st'))"

definition add_tri :: "int \<Rightarrow> int \<Rightarrow> int \<Rightarrow> mesh \<Rightarrow> mesh" where
  "add_tri a b c st = st\<lparr>faces := faces st @ [(a, b, c)]\<rparr>"

text \<open>\<open>range(n)\<close>: empty when \<open>n \<le> 0\<close>.\<close>

definition py_range :: "int \<Rightarrow> int list" where
  "py_range n = map int [0..<nat n]"

text \<open>A \<open>for\<close> loop over a list of indices, stopping at the first error.\<close>

fun for_each :: "int list \<Rightarrow> (int \<Rightarrow> mesh \<Rightarrow> error + mesh) \<Rightarrow> mesh \<Rightarrow> error + mesh" where
  "for_each [] body st = Inr st"
| "for_each (i # is) body st =
     (case body i st of Inl e \<Rightarrow> Inl e | Inr st' \<Rightarrow> for_each is body st')"

definition v_at :: "int \<Rightarrow> int \<Rightarrow> error + real" where
  "v_at j n = bind_err (truediv (real_of_int j) (real_of_int n)) (\<lambda>q. Inr (q * (2 * pi)))"

subsection \<open>1) Main outer surface\<close>

definition outer_cell :: "Params \<Rightarrow> int \<Rightarrow> real \<Rightarrow> real \<Rightarrow> int \<Rightarrow> mesh \<Rightarrow> error + mesh" where
  "outer_cell P dt u1 u2 j st =
     bind_err (v_at j dt) (\<lambda>v1.
     bind_err (v_at (j + 1) dt) (\<lambda>v2.
       (let (p1, st1) = add_vertex (compute_outer_vertex u1 v1 P) st;
            (p2, st2) = add_vertex (compute_outer_vertex u2 v1 P) st1;
            (p3, st3) = add_vertex (compute_outer_vertex u2 v2 P) st2;
            (p4, st4) = add_vertex (compute_outer_vertex u1 v2 P) st3
        in Inr (add_tri p1 p3 p4 (add_tri p1 p2 p3 st4)))))"

definition outer_row :: "Params \<Rightarrow> int \<Rightarrow> int \<Rightarrow> mesh \<Rightarrow> error + mesh" where
  "outer_row P dt i st =
     bind_err (truediv (real_of_int i) (real_of_int dt)) (\<lambda>u1.
     bind_err (truediv (real_of_int (i + 1)) (real_of_int dt)) (\<lambda>u2.
       for_each (py_range dt) (outer_cell P dt u1 u2) st))"

definition outer_shell :: "Params \<Rightarrow> int \<Rightarrow> mesh \<Rightarrow> error + mesh" where
  "outer_shell P dt st = for_each (py_range dt) (outer_row P dt) st"

subsection \<open>1b) Bottom cap\<close>

definition bottom_fan :: "Params \<Rightarrow> int \<Rightarrow> int \<Rightarrow> int \<Rightarrow> mesh \<Rightarrow> error + mesh" where
  "bottom_fan P dt center_bottom j st =
     bind_err (v_at j dt) (\<lambda>v1.
     bind_err (v_at (j + 1) dt) (\<lambda>v2.
       (let (p1, st1) = add_vertex (compute_outer_vertex 1 v1 P) st;
            (p2, st2) = add_vertex (compute_outer_vertex 1 v2 P) st1
        in Inr (add_tri center_bottom p1 p2 st2))))"

definition bottom_cap :: "Params \<Rightarrow> int \<Rightarrow> mesh \<Rightarrow> error + mesh" where
  "bottom_cap P dt st =
     (let (center_bottom, st0) = add_vertex (0, - real_of_int (cylinderHeight P) / 2, 0) st
      in for_each (py_range dt) (bottom_fan P dt center_bottom) st0)"

subsection \<open>2) Transition from top rim to mount radius\<close>

definition transition_cell ::
  "Params \<Rightarrow> int \<Rightarrow> real \<Rightarrow> real \<Rightarrow> real \<Rightarrow> real \<Rightarrow> real \<Rightarrow> real \<Rightarrow> int \<Rightarrow> mesh \<Rightarrow> error + mesh" where
  "transition_cell P dt transTopY topR t1 t2 y1 y2 j st =
     bind_err (v_at j dt) (\<lambda>a1.
     bind_err (v_at (j + 1) dt) (\<lambda>a2.
       (let bottomV1 = compute_outer_vertex 0 a1 P;
            bottomV2 = compute_outer_vertex 0 a2 P;
            topV1 = (topR * cos a1, transTopY, topR * sin a1);
            topV2 = (topR * cos a2, transTopY, topR * sin a2);
            x1 = lerp (vx bottomV1) (vx topV1) t1; z1 = lerp (vz bottomV1) (vz topV1) t1;
            x2 = lerp (vx bottomV1) (vx topV1) t2; z2 = lerp (vz bottomV1) (vz topV1) t2;
            x3 = lerp (vx bottomV2) (vx topV2) t2; z3 = lerp (vz bottomV2) (vz topV2) t2;
            x4 = lerp (vx bottomV2) (vx topV2) t1; z4 = lerp (vz bottomV2) (vz topV2) t1;
            (P1, st1) = add_vertex (x1, y1, z1) st;
            (P2, st2) = add_vertex (x2, y2, z2) st1;
            (P3, st3) = add_vertex (x3, y2, z3) st2;
            (P4, st4) = add_vertex (x4, y1, z4) st3
        in Inr (add_tri P1 P3 P4 (add_tri P1 P2 P3 st4)))))"

definition transition_row ::
  "Params \<Rightarrow> int \<Rightarrow> real \<Rightarrow> real \<Rightarrow> real \<Rightarrow> int \<Rightarrow> mesh \<Rightarrow> error + mesh" where
  "transition_row P dt transBottomY transTopY topR i st =
     bind_err (truediv (real_of_int i) (real_of_int dt)) (\<lambda>t1.
     bind_err (truediv (real_of_int (i + 1)) (real_of_int dt)) (\<lambda>t2.
       (let y1 = lerp transBottomY transTopY t1;
            y2 = lerp transBottomY transTopY t2
        in for_each (py_range dt) (transition_cell P dt transTopY topR t1 t2 y1 y2) st)))"

definition transition_skirt :: "Params \<Rightarrow> int \<Rightarrow> mesh \<Rightarrow> error + mesh" where
  "transition_skirt P dt st =
     (let transBottomY = real_of_int (cylinderHeight P) / 2;
          transTopY = transBottomY + transitionHeight P;
          topR = mountCylinderOuterDiameter P / 2
      in for_each (py_range dt) (transition_row P dt transBottomY transTopY topR) st)"

subsection \<open>3) Mount cylinder: side wall and top cap\<close>

definition side_strip :: "int \<Rightarrow> real \<Rightarrow> real \<Rightarrow> real \<Rightarrow> int \<Rightarrow> mesh \<Rightarrow> error + mesh" where
  "side_strip dt cylBottomY cylTopY r_out i st =
     bind_err (v_at i dt) (\<lambda>a1.
     bind_err (v_at (i + 1) dt) (\<lambda>a2.
       (let (p1, st1) = add_vertex (r_out * cos a1, cylBottomY, r_out * sin a1) st;
            (p2, st2) = add_vertex (r_out * cos a1, cylTopY, r_out * sin a1) st1;
            (p3, st3) = add_vertex (r_out * cos a2, cylTopY, r_out * sin a2) st2;
            (p4, st4) = add_vertex (r_out * cos a2, cylBottomY, r_out * sin a2) st3
        in Inr (add_tri p1 p3 p4 (add_tri p1 p2 p3 st4)))))"

definition top_fan :: "int \<Rightarrow> real \<Rightarrow> real \<Rightarrow> int \<Rightarrow> int \<Rightarrow> mesh \<Rightarrow> error + mesh" where
  "top_fan dt cylTopY r_out center_top j st =
     bind_err (v_at j dt) (\<lambda>a1.
     bind_err (v_at (j + 1) dt) (\<lambda>a2.
       (let (p1, st1) = add_vertex (r_out * cos a1, cylTopY, r_out * sin a1) st;
            (p2, st2) = add_vertex (r_out * cos a2, cylTopY, r_out * sin a2) st1
        in Inr (add_tri center_top p2 p1 st2))))"

definition cylBottomY :: "Params \<Rightarrow> real" where
  "cylBottomY P = real_of_int (cylinderHeight P) / 2 + transitionHeight P"

definition cylTopY :: "Params \<Rightarrow> real" where
  "cylTopY P = cylBottomY P + mountCylinderHeight P"

definition mount_side :: "Params \<Rightarrow> int \<Rightarrow> mesh \<Rightarrow> error + mesh" where
  "mount_side P dt st =
     (let r_out = mountCylinderOuterDiameter P / 2
      in for_each (py_range dt) (side_strip dt (cylBottomY P) (cylTopY P) r_out) st)"

definition top_cap :: "Params \<Rightarrow> int \<Rightarrow> mesh \<Rightarrow> error + mesh" where
  "top_cap P dt st =
     (let r_out = mountCylinderOuterDiameter P / 2;
          (center_top, st0) = add_vertex (0, cylTopY P, 0) st
      in for_each (py_range dt) (top_fan dt (cylTopY P) r_out center_top) st0)"

subsection \<open>The builder\<close>

text \<open>
  \<open>build_mesh_arrays\<close> mutates its argument through the two update methods and returns
  the arrays \<open>(V, F)\<close>; the model returns the updated parameters together with them.
\<close>

definition build_mesh_arrays :: "Params \<Rightarrow> error + (Params \<times> vertex list \<times> face list)" where
  "build_mesh_arrays P0 =
     (let P = update_feature_depth_max (update_transition P0);
          dt = detail P
      in bind_err (outer_shell P dt empty_mesh) (\<lambda>s1.
         bind_err (bottom_cap P dt s1) (\<lambda>s2.
         bind_err (transition_skirt P dt s2) (\<lambda>s3.
         bind_err (mount_side P dt s3) (\<lambda>s4.
         bind_err (top_cap P dt s4) (\<lambda>s5.
           Inr (P, vertices s5, faces s5)))))))"

section \<open>Auxiliary notions for the properties\<close>

text \<open>Distance of a vertex from the vertical axis: \<open>sqrt(x\<^sup>2 + z\<^sup>2)\<close>.\<close>

definition shell_radius :: "vertex \<Rightarrow> real" where
  "shell_radius p = sqrt ((vx p)\<^sup>2 + (vz p)\<^sup>2)"

text \<open>An index is a valid position in a vertex array of \<open>n\<close> rows.\<close>

definition index_ok :: "nat \<Rightarrow> int \<Rightarrow> bool" where
  "index_ok n a = (0 \<le> a \<and> a < int n)"

definition face_ok :: "nat \<Rightarrow> face \<Rightarrow> bool" where
  "face_ok n f = (case f of (a, b, c) \<Rightarrow> index_ok n a \<and> index_ok n b \<and> index_ok n c)"

definition faces_valid :: "mesh \<Rightarrow> bool" where
  "faces_valid st = list_all (face_ok (length (vertices st))) (faces st)"

text \<open>
  \<open>grows nv nf st st'\<close>: the buffers of \<open>st'\<close> hold \<open>nv\<close> more vertices and \<open>nf\<close> more
  faces than those of \<open>st\<close>, and valid face indices stay valid.
\<close>

definition grows :: "nat \<Rightarrow> nat \<Rightarrow> mesh \<Rightarrow> mesh \<Rightarrow> bool" where
  "grows nv nf st st' =
     (length (vertices st') = length (vertices st) + nv
      \<and> length (faces st') = length (faces st) + nf
      \<and> (faces_valid st \<longrightarrow> faces_valid st'))"

text \<open>Observations of a result that may be an error.\<close>

definition vertex_count :: "error + mesh \<Rightarrow> nat option" where
  "vertex_count r = (case r of Inl e \<Rightarrow> None | Inr s \<Rightarrow> Some (length (vertices s)))"

definition result_vertices ::
  "error + (Params \<times> vertex list \<times> face list) \<Rightarrow> vertex list option" where
  "result_vertices r = (case r of Inl e \<Rightarrow> None | Inr (P, V, F) \<Rightarrow> Some V)"

section \<open>Parameter derivation\<close>

text \<open>
  Claim C7: after \<open>update_transition\<close>, \<open>transitionWidth\<close> is
  \<open>(topDiameter - mountCylinderOuterDiameter) / 2\<close> (it may be negative), and
  \<open>transitionHeight\<close> is \<open>max(0, transitionWidth)\<close> times the tangent of the overhang
  angle converted from degrees to radians.
\<close>

theorem update_transition_fields:
  "transitionWidth (update_transition P)
     = (real_of_int (topDiameter P) - mountCylinderOuterDiameter P) / 2
   \<and> transitionHeight (update_transition P)
     = max 0 (transitionWidth (update_transition P))
       * tan (real_of_int (overhangAngle P) * pi / 180)"
  by (simp add: update_transition_def radians_def Let_def)

text \<open>
  At the defaults the width is \<open>(30 - 13) / 2 = 8.5\<close>; with a top diameter of 10 it is
  negative, and the height is then zero.
\<close>

theorem update_transition_fields_witness:
  "transitionWidth (update_transition default_params) = 17 / 2
   \<and> transitionWidth (update_transition (default_params\<lparr>topDiameter := 10\<rparr>)) = - (3 / 2)
   \<and> transitionHeight (update_transition (default_params\<lparr>topDiameter := 10\<rparr>)) = 0"
  using update_transition_fields[of default_params]
    update_transition_fields[of "default_params\<lparr>topDiameter := 10\<rparr>"]
  by (simp add: default_params_def)

lemma smallest_radius_kept:
  "smallestMainCylinderRadius (update_feature_depth_max P) = smallestMainCylinderRadius P"
  by (simp add: update_feature_depth_max_def smallestMainCylinderRadius_def Let_def)

lemma feature_depth_le:
  "featureDepth (update_feature_depth_max P)
     \<le> max (featureDepthMin P)
           (max 0 (smallestMainCylinderRadius P - mountCylinderOuterDiameter P / 2))"
  by (simp add: update_feature_depth_max_def clamp_def Let_def)

text \<open>
  Claim C1, as stated, fails: the clamp gives the lower bound \<open>featureDepthMin\<close> priority
  over the safe maximum. With \<open>featureDepthMin = 10\<close> and every other field at its default,
  the mount radius is 6.5 and the smallest main radius 15, yet the clamped depth is 10.
\<close>

theorem feature_depth_min_pierces:
  "mountCylinderOuterDiameter (default_params\<lparr>featureDepthMin := 10\<rparr>) / 2
      \<le> smallestMainCylinderRadius (default_params\<lparr>featureDepthMin := 10\<rparr>)
   \<and> \<not> featureDepth (update_feature_depth_max (default_params\<lparr>featureDepthMin := 10\<rparr>))
          + mountCylinderOuterDiameter (default_params\<lparr>featureDepthMin := 10\<rparr>) / 2
        \<le> smallestMainCylinderRadius (default_params\<lparr>featureDepthMin := 10\<rparr>)"
  by (simp add: update_feature_depth_max_def clamp_def Let_def default_params_def
      smallestMainCylinderRadius_def)

text \<open>
  Claim C1 (amended): for every parameter record whose mount radius
  \<open>mountCylinderOuterDiameter / 2\<close> is at most the smallest main radius
  \<open>min(topDiameter + transitionWidth, bottomDiameter, middleDiameter) / 2\<close>, and whose
  \<open>featureDepthMin\<close> is at most the difference of the two, the feature depth clamped by
  \<open>update_feature_depth_max\<close> plus the mount radius is at most the smallest main radius.
\<close>

theorem feature_depth_no_piercing:
  assumes "mountCylinderOuterDiameter P / 2 \<le> smallestMainCylinderRadius P"
      and "featureDepthMin P
             \<le> smallestMainCylinderRadius P - mountCylinderOuterDiameter P / 2"
  shows "featureDepth (update_feature_depth_max P) + mountCylinderOuterDiameter P / 2
           \<le> smallestMainCylinderRadius P"
  using assms feature_depth_le[of P] by simp

theorem feature_depth_no_piercing_witness:
  "mountCylinderOuterDiameter default_params / 2 \<le> smallestMainCylinderRadius default_params
   \<and> featureDepthMin default_params
       \<le> smallestMainCylinderRadius default_params
          - mountCylinderOuterDiameter default_params / 2
   \<and> featureDepth (update_feature_depth_max default_params)
        + mountCylinderOuterDiameter default_params / 2
       \<le> smallestMainCylinderRadius default_params"
proof -
  have h1: "mountCylinderOuterDiameter default_params / 2
              \<le> smallestMainCylinderRadius default_params"
    by (simp add: default_params_def smallestMainCylinderRadius_def)
  have h2: "featureDepthMin default_params
              \<le> smallestMainCylinderRadius default_params
                 - mountCylinderOuterDiameter default_params / 2"
    by (simp add: default_params_def smallestMainCylinderRadius_def)
  from feature_depth_no_piercing[OF h1 h2] h1 h2 show ?thesis by blast
qed

subsection \<open>Running the derivation twice\<close>

lemma clamp_idem: "clamp (clamp x lo hi) lo hi = clamp x lo hi"
  unfolding clamp_def by (cases "lo \<le> hi") (simp_all add: min_def max_def)

lemma min_min_same: "min (m::real) (min m x) = min m x"
  by simp

lemma update_feature_depth_max_idem:
  "update_feature_depth_max (update_feature_depth_max P) = update_feature_depth_max P"
proof -
  have "update_feature_depth_max (update_feature_depth_max P) =
     (let Q = update_feature_depth_max P;
          outerRadius = mountCylinderOuterDiameter Q / 2;
          P1 = Q\<lparr>featureDepthMax :=
                  min (max 0 (smallestMainCylinderRadius P - outerRadius)) (featureDepthMax Q)\<rparr>
      in P1\<lparr>featureDepth :=
              clamp (featureDepth P1) (featureDepthMin P1)
                    (max (featureDepthMin P1) (featureDepthMax P1))\<rparr>)"
    by (simp only: update_feature_depth_max_def[of "update_feature_depth_max P"]
        smallest_radius_kept Let_def)
  also have "\<dots> = update_feature_depth_max P"
    by (simp add: update_feature_depth_max_def[of P] Let_def min_min_same clamp_idem)
  finally show ?thesis .
qed

lemma update_transition_after_depth:
  "update_transition (update_feature_depth_max (update_transition P))
     = update_feature_depth_max (update_transition P)"
  by (simp add: update_transition_def update_feature_depth_max_def Let_def)

lemma derive_idem:
  "update_feature_depth_max (update_transition (update_feature_depth_max (update_transition P)))
     = update_feature_depth_max (update_transition P)"
  by (simp only: update_transition_after_depth update_feature_depth_max_idem)

lemma detail_derived: "detail (update_feature_depth_max (update_transition P)) = detail P"
  by (simp add: update_feature_depth_max_def update_transition_def Let_def)

lemma derived_frame:
  "update_feature_depth_max (update_transition P) =
     P\<lparr>transitionWidth := transitionWidth (update_feature_depth_max (update_transition P)),
       transitionHeight := transitionHeight (update_feature_depth_max (update_transition P)),
       featureDepthMax := featureDepthMax (update_feature_depth_max (update_transition P)),
       featureDepth := featureDepth (update_feature_depth_max (update_transition P))\<rparr>"
  by (simp add: update_feature_depth_max_def update_transition_def Let_def)

section \<open>Radial profile and pattern displacement\<close>

text \<open>
  Claim C5: in each interpolation mode (1 is Lagrange, 2 is piecewise linear, every other
  value is Bezier) the radial profile is \<open>topDiameter / 2\<close> at \<open>u = 0\<close> and
  \<open>bottomDiameter / 2\<close> at \<open>u = 1\<close>. Over the reals the equalities are exact.
\<close>

theorem profile_anchors:
  "quadratic_profile 0 P = real_of_int (topDiameter P) / 2
   \<and> quadratic_profile 1 P = real_of_int (bottomDiameter P) / 2"
  by (simp add: quadratic_profile_def lerp_def Let_def)

text \<open>The three modes at the default diameters: 15 at the top rim, 30 at the bottom rim.\<close>

theorem profile_anchors_witness:
  "quadratic_profile 0 (default_params\<lparr>interpolation := 0\<rparr>) = 15
   \<and> quadratic_profile 1 (default_params\<lparr>interpolation := 0\<rparr>) = 30
   \<and> quadratic_profile 0 (default_params\<lparr>interpolation := 1\<rparr>) = 15
   \<and> quadratic_profile 1 (default_params\<lparr>interpolation := 1\<rparr>) = 30
   \<and> quadratic_profile 0 (default_params\<lparr>interpolation := 2\<rparr>) = 15
   \<and> quadratic_profile 1 (default_params\<lparr>interpolation := 2\<rparr>) = 30"
  using profile_anchors[of "default_params\<lparr>interpolation := 0\<rparr>"]
    profile_anchors[of "default_params\<lparr>interpolation := 1\<rparr>"]
    profile_anchors[of "default_params\<lparr>interpolation := 2\<rparr>"]
  by (simp add: default_params_def)

subsection \<open>Bounds of the twelve patterns\<close>

lemma scaled_bound:
  fixes fd x c :: real
  assumes "0 \<le> fd" "\<bar>x\<bar> \<le> c"
  shows "\<bar>fd * x\<bar> \<le> c * fd"
proof -
  have "\<bar>fd * x\<bar> = fd * \<bar>x\<bar>" using assms(1) by (simp add: abs_mult)
  also have "\<dots> \<le> fd * c" using assms by (intro mult_left_mono) auto
  finally show ?thesis by (simp add: mult.commute)
qed

lemma abs_prod_le_one:
  fixes a b :: real
  assumes "\<bar>a\<bar> \<le> 1" "\<bar>b\<bar> \<le> 1"
  shows "\<bar>a * b\<bar> \<le> 1"
proof -
  have "\<bar>a * b\<bar> = \<bar>a\<bar> * \<bar>b\<bar>" by (simp add: abs_mult)
  also have "\<dots> \<le> 1 * 1" using assms by (intro mult_mono) auto
  finally show ?thesis by simp
qed

lemma triangle_wave_bound:
  fixes x :: real
  shows "\<bar>2 * (x - real_of_int \<lfloor>x + 1 / 2\<rfloor>)\<bar> \<le> 1"
proof -
  define f where "f = real_of_int \<lfloor>x + 1 / 2\<rfloor>"
  have lo: "f \<le> x + 1 / 2" unfolding f_def by (rule of_int_floor_le)
  have hi: "x + 1 / 2 < f + 1" unfolding f_def by (rule real_of_int_floor_add_one_gt)
  have "\<bar>2 * (x - f)\<bar> \<le> 1" using lo hi by (simp add: abs_le_iff)
  then show ?thesis unfolding f_def .
qed

lemma offset_mode_le0: "designMode P \<le> 0 \<Longrightarrow> design_offset u v P = 0"
  by (simp add: design_offset_def)

lemma offset_mode_gt12: "12 < designMode P \<Longrightarrow> design_offset u v P = 0"
  by (simp add: design_offset_def Let_def)

lemma offset_mode1: "designMode P = 1 \<Longrightarrow>
  design_offset u v P = featureDepth P * (sin (real_of_int (featureCount P) * pi * u) * cos (real_of_int (featureCount P) * v))"
  by (simp add: design_offset_def Let_def)

lemma offset_mode2: "designMode P = 2 \<Longrightarrow>
  design_offset u v P = featureDepth P * sin (real_of_int (featureCount P) * (v + pi * u))"
  by (simp add: design_offset_def Let_def)

lemma offset_mode3: "designMode P = 3 \<Longrightarrow>
  design_offset u v P = featureDepth P * \<bar>sin (real_of_int (featureCount P) * v)\<bar>"
  by (simp add: design_offset_def Let_def)

lemma offset_mode4: "designMode P = 4 \<Longrightarrow>
  design_offset u v P = featureDepth P * (\<bar>sin (real_of_int (featureCount P) * pi * u)\<bar> + \<bar>sin (real_of_int (featureCount P) * v)\<bar>)"
  by (simp add: design_offset_def Let_def)

lemma offset_mode5: "designMode P = 5 \<Longrightarrow>
  design_offset u v P = featureDepth P * (sin (real_of_int (featureCount P) * (v + u)) * sin (real_of_int (featureCount P) * (v - u)))"
  by (simp add: design_offset_def Let_def)

lemma offset_mode6: "designMode P = 6 \<Longrightarrow>
  design_offset u v P = featureDepth P * sin (real_of_int (featureCount P) * (v + (1 / 2) * sin (2 * pi * u)))"
  by (simp add: design_offset_def Let_def)

lemma offset_mode7: "designMode P = 7 \<Longrightarrow>
  design_offset u v P = featureDepth P * (\<bar>sin (real_of_int (featureCount P) * v)\<bar> - \<bar>sin (real_of_int (featureCount P) * pi * u)\<bar>)"
  by (simp add: design_offset_def Let_def)

lemma offset_mode8: "designMode P = 8 \<Longrightarrow>
  design_offset u v P = featureDepth P * ((1 / 2) * (sin (real_of_int (featureCount P) * v) + sin ((real_of_int (featureCount P) + 1) * v + 2 * pi * u)))"
  by (simp add: design_offset_def Let_def)

lemma offset_mode9: "designMode P = 9 \<Longrightarrow>
  design_offset u v P = featureDepth P * ((7 / 10) * cos (real_of_int (featureCount P) * 2 * pi * u))"
  by (simp add: design_offset_def Let_def)

lemma offset_mode10: "designMode P = 10 \<Longrightarrow>
  design_offset u v P = featureDepth P * ((8 / 10) *
     \<bar>2 * (real_of_int (featureCount P) * u - real_of_int \<lfloor>real_of_int (featureCount P) * u + 1 / 2\<rfloor>)\<bar>)"
  by (simp add: design_offset_def Let_def)

lemma offset_mode11: "designMode P = 11 \<Longrightarrow>
  design_offset u v P = featureDepth P * ((9 / 10) * \<bar>sin (real_of_int (featureCount P) * pi * u + v)\<bar>)"
  by (simp add: design_offset_def Let_def)

lemma offset_mode12: "designMode P = 12 \<Longrightarrow>
  design_offset u v P = featureDepth P * ((1 / 2) *
     (cos (real_of_int (featureCount P) * 2 * pi * u + 2 * v)
      + (7 / 10) * sin (real_of_int (featureCount P) * v + u * (27 / 10))))"
  by (simp add: design_offset_def Let_def)

lemma sin_abs_le: "\<bar>sin (x::real)\<bar> \<le> 1" by (rule abs_sin_le_one)
lemma cos_abs_le: "\<bar>cos (x::real)\<bar> \<le> 1" by (rule abs_cos_le_one)

lemma half_sum_bound:
  fixes a b :: real
  shows "\<bar>a\<bar> \<le> 1 \<Longrightarrow> \<bar>b\<bar> \<le> 1 \<Longrightarrow> \<bar>(1 / 2) * (a + b)\<bar> \<le> 18 / 10"
  by argo

lemma half_weighted_sum_bound:
  fixes a b :: real
  shows "\<bar>a\<bar> \<le> 1 \<Longrightarrow> \<bar>b\<bar> \<le> 1 \<Longrightarrow> \<bar>(1 / 2) * (a + (7 / 10) * b)\<bar> \<le> 18 / 10"
  by argo

lemma mode_cases:
  fixes m :: int
  shows "m \<le> 0 \<or> m = 1 \<or> m = 2 \<or> m = 3 \<or> m = 4 \<or> m = 5 \<or> m = 6 \<or> m = 7
         \<or> m = 8 \<or> m = 9 \<or> m = 10 \<or> m = 11 \<or> m = 12 \<or> 12 < m"
  by presburger

text \<open>
  Claim C2, as stated, fails for mode 4, which adds two absolute sines: with
  \<open>featureCount = 1\<close>, \<open>featureDepth = 1\<close>, \<open>u = 1/2\<close> and \<open>v = \<pi>/2\<close> both are 1 and
  the offset is 2.
\<close>

theorem pattern_mode4_exceeds:
  "\<not> \<bar>design_offset (1 / 2) (pi / 2)
         (default_params\<lparr>designMode := 4, featureCount := 1, featureDepth := 1\<rparr>)\<bar>
       \<le> 18 / 10
          * featureDepth (default_params\<lparr>designMode := 4, featureCount := 1, featureDepth := 1\<rparr>)"
  by (simp add: offset_mode4 default_params_def)

text \<open>
  Claim C2 (amended): for every design mode, feature count and non-negative feature
  depth, and all \<open>u\<close> and \<open>v\<close>, the magnitude of the pattern displacement is at most
  \<open>1.8 \<sqdot> featureDepth\<close> in every mode other than 4 and at most \<open>2 \<sqdot> featureDepth\<close> in mode 4.
\<close>

theorem pattern_bounded:
  assumes fd: "0 \<le> featureDepth P"
  shows "\<bar>design_offset u v P\<bar>
           \<le> (if designMode P = 4 then 2 else 18 / 10) * featureDepth P"
proof -
  let ?m = "designMode P"
  let ?fc = "real_of_int (featureCount P)"
  consider "?m \<le> 0" | "?m = 1" | "?m = 2" | "?m = 3" | "?m = 4" | "?m = 5" | "?m = 6"
    | "?m = 7" | "?m = 8" | "?m = 9" | "?m = 10" | "?m = 11" | "?m = 12" | "12 < ?m"
    using mode_cases[of ?m] by blast
  then show ?thesis
  proof cases
    case 1
    then show ?thesis using fd by (simp add: offset_mode_le0)
  next
    case 2
    have "\<bar>sin (?fc * pi * u) * cos (?fc * v)\<bar> \<le> 18 / 10"
      using abs_prod_le_one[OF sin_abs_le cos_abs_le, of "?fc * pi * u" "?fc * v"] by linarith
    from scaled_bound[OF fd this] show ?thesis using 2 by (simp add: offset_mode1)
  next
    case 3
    have "\<bar>sin (?fc * (v + pi * u))\<bar> \<le> 18 / 10"
      using sin_abs_le[of "?fc * (v + pi * u)"] by linarith
    from scaled_bound[OF fd this] show ?thesis using 3 by (simp add: offset_mode2)
  next
    case 4
    have "\<bar>\<bar>sin (?fc * v)\<bar>\<bar> \<le> 18 / 10"
      using sin_abs_le[of "?fc * v"] by linarith
    from scaled_bound[OF fd this] show ?thesis using 4 by (simp add: offset_mode3)
  next
    case 5
    have "\<bar>\<bar>sin (?fc * pi * u)\<bar> + \<bar>sin (?fc * v)\<bar>\<bar> \<le> 2"
      using sin_abs_le[of "?fc * pi * u"] sin_abs_le[of "?fc * v"] by linarith
    from scaled_bound[OF fd this] show ?thesis using 5 by (simp add: offset_mode4)
  next
    case 6
    have "\<bar>sin (?fc * (v + u)) * sin (?fc * (v - u))\<bar> \<le> 18 / 10"
      using abs_prod_le_one[OF sin_abs_le sin_abs_le, of "?fc * (v + u)" "?fc * (v - u)"] by linarith
    from scaled_bound[OF fd this] show ?thesis using 6 by (simp add: offset_mode5)
  next
    case 7
    have "\<bar>sin (?fc * (v + (1 / 2) * sin (2 * pi * u)))\<bar> \<le> 18 / 10"
      using sin_abs_le[of "?fc * (v + (1 / 2) * sin (2 * pi * u))"] by linarith
    from scaled_bound[OF fd this] show ?thesis using 7 by (simp add: offset_mode6)
  next
    case 8
    have "\<bar>\<bar>sin (?fc * v)\<bar> - \<bar>sin (?fc * pi * u)\<bar>\<bar> \<le> 18 / 10"
      using sin_abs_le[of "?fc * pi * u"] sin_abs_le[of "?fc * v"] by linarith
    from scaled_bound[OF fd this] show ?thesis using 8 by (simp add: offset_mode7)
  next
    case 9
    have "\<bar>(1 / 2) * (sin (?fc * v) + sin ((?fc + 1) * v + 2 * pi * u))\<bar> \<le> 18 / 10"
      by (rule half_sum_bound[OF sin_abs_le sin_abs_le])
    from scaled_bound[OF fd this] show ?thesis using 9 by (simp add: offset_mode8)
  next
    case 10
    have "\<bar>(7 / 10) * cos (?fc * 2 * pi * u)\<bar> \<le> 18 / 10"
      using cos_abs_le[of "?fc * 2 * pi * u"] by linarith
    from scaled_bound[OF fd this] show ?thesis using 10 by (simp add: offset_mode9)
  next
    case 11
    have "\<bar>(8 / 10) * \<bar>2 * (?fc * u - real_of_int \<lfloor>?fc * u + 1 / 2\<rfloor>)\<bar>\<bar> \<le> 18 / 10"
      using triangle_wave_bound[of "?fc * u"] by linarith
    from scaled_bound[OF fd this] show ?thesis using 11 by (simp add: offset_mode10)
  next
    case 12
    have "\<bar>(9 / 10) * \<bar>sin (?fc * pi * u + v)\<bar>\<bar> \<le> 18 / 10"
      using sin_abs_le[of "?fc * pi * u + v"] by linarith
    from scaled_bound[OF fd this] show ?thesis using 12 by (simp add: offset_mode11)
  next
    case 13
    have "\<bar>(1 / 2) * (cos (?fc * 2 * pi * u + 2 * v) + (7 / 10) * sin (?fc * v + u * (27 / 10)))\<bar> \<le> 18 / 10"
      by (rule half_weighted_sum_bound[OF cos_abs_le sin_abs_le])
    from scaled_bound[OF fd this] show ?thesis using 13 by (simp add: offset_mode12)
  next
    case 14
    then show ?thesis using fd by (simp add: offset_mode_gt12)
  qed
qed

theorem pattern_bounded_witness:
  "0 \<le> featureDepth default_params
   \<and> \<bar>design_offset (1 / 2) 0 default_params\<bar> \<le> 18 / 10 * featureDepth default_params
   \<and> 0 \<le> featureDepth (default_params\<lparr>designMode := 4\<rparr>)
   \<and> \<bar>design_offset (1 / 2) 0 (default_params\<lparr>designMode := 4\<rparr>)\<bar>
       \<le> 2 * featureDepth (default_params\<lparr>designMode := 4\<rparr>)"
proof -
  have h1: "0 \<le> featureDepth default_params"
    by (simp add: default_params_def)
  have h4: "0 \<le> featureDepth (default_params\<lparr>designMode := 4\<rparr>)"
    by (simp add: default_params_def)
  have m1: "designMode default_params \<noteq> 4"
    by (simp add: default_params_def)
  have m4: "designMode (default_params\<lparr>designMode := 4\<rparr>) = 4"
    by simp
  from pattern_bounded[OF h1, of "1 / 2" 0] m1
  have b1: "\<bar>design_offset (1 / 2) 0 default_params\<bar> \<le> 18 / 10 * featureDepth default_params"
    by simp
  from pattern_bounded[OF h4, of "1 / 2" 0] m4
  have b4: "\<bar>design_offset (1 / 2) 0 (default_params\<lparr>designMode := 4\<rparr>)\<bar>
              \<le> 2 * featureDepth (default_params\<lparr>designMode := 4\<rparr>)"
    by simp
  from h1 b1 h4 b4 show ?thesis by blast
qed

subsection \<open>Pattern disabled\<close>

lemma radius_polar: "sqrt ((r * cos v)\<^sup>2 + (r * sin v)\<^sup>2) = \<bar>r :: real\<bar>"
proof -
  have "(r * cos v)\<^sup>2 + (r * sin v)\<^sup>2 = r\<^sup>2 * ((cos v)\<^sup>2 + (sin v)\<^sup>2)"
    by (simp only: power_mult_distrib distrib_left)
  also have "\<dots> = r\<^sup>2" by (simp only: sin_cos_squared_add2 mult_1_right)
  finally show ?thesis by simp
qed

lemma shell_radius_outer:
  "shell_radius (compute_outer_vertex u v P) = max 0 (quadratic_profile u P + design_offset u v P)"
  by (simp add: shell_radius_def compute_outer_vertex_def Let_def vx_def vz_def radius_polar)

text \<open>
  Claim C6, as stated, fails where the profile is negative, because
  \<open>compute_outer_vertex\<close> clamps the radius at zero: the Lagrange profile through the
  diameters 1000, 30 and 30 is negative at \<open>u = 3/4\<close>, and the vertex lies on the axis.
\<close>

theorem pattern_disabled_negative_profile:
  "shell_radius (compute_outer_vertex (3 / 4) 0
      (default_params\<lparr>designMode := 0, interpolation := 1, topDiameter := 1000,
                       middleDiameter := 30, bottomDiameter := 30\<rparr>))
   \<noteq> quadratic_profile (3 / 4)
      (default_params\<lparr>designMode := 0, interpolation := 1, topDiameter := 1000,
                       middleDiameter := 30, bottomDiameter := 30\<rparr>)"
  by (simp add: shell_radius_outer offset_mode_le0 quadratic_profile_def default_params_def)

text \<open>
  Claim C6 (amended): when \<open>designMode\<close> is 0 or any value outside 1..12,
  \<open>design_offset\<close> is exactly 0 for all inputs, and the radius \<open>sqrt(x\<^sup>2 + z\<^sup>2)\<close> of
  the vertex computed by \<open>compute_outer_vertex\<close> is \<open>max(0, quadratic_profile(u, P))\<close>,
  independent of \<open>v\<close>; it is the profile itself wherever the profile is not negative.
\<close>

theorem pattern_disabled_radius:
  assumes "designMode P \<le> 0 \<or> 12 < designMode P"
  shows "design_offset u v P = 0
       \<and> shell_radius (compute_outer_vertex u v P) = max 0 (quadratic_profile u P)"
  using assms by (auto simp: shell_radius_outer offset_mode_le0 offset_mode_gt12)

theorem pattern_disabled_radius_witness:
  "(designMode (default_params\<lparr>designMode := 0\<rparr>) \<le> 0
      \<or> 12 < designMode (default_params\<lparr>designMode := 0\<rparr>))
   \<and> design_offset (1 / 2) 1 (default_params\<lparr>designMode := 0\<rparr>) = 0
   \<and> shell_radius (compute_outer_vertex (1 / 2) 1 (default_params\<lparr>designMode := 0\<rparr>)) = 115 / 4"
proof -
  have h: "designMode (default_params\<lparr>designMode := 0\<rparr>) \<le> 0
             \<or> 12 < designMode (default_params\<lparr>designMode := 0\<rparr>)"
    by simp
  have q: "quadratic_profile (1 / 2) (default_params\<lparr>designMode := 0\<rparr>) = 115 / 4"
    by (simp add: quadratic_profile_def default_params_def)
  from pattern_disabled_radius[OF h, of "1 / 2" 1] h q show ?thesis by simp
qed

section \<open>The mesh builder\<close>

subsection \<open>How each region extends the buffers\<close>

lemma truediv_ok: "b \<noteq> 0 \<Longrightarrow> truediv a b = Inr (a / b)"
  by (simp add: truediv_def)

lemma v_at_ok: "n \<noteq> 0 \<Longrightarrow> v_at j n = Inr (real_of_int j / real_of_int n * (2 * pi))"
  by (simp add: v_at_def truediv_def bind_err_def)

lemma bind_err_Inr: "bind_err (Inr x) f = f x"
  by (simp add: bind_err_def)

lemma add_vertex_eq:
  "add_vertex p st = (int (length (vertices st)), st\<lparr>vertices := vertices st @ [p]\<rparr>)"
  by (simp add: add_vertex_def Let_def)

lemma face_ok_mono: "face_ok n f \<Longrightarrow> n \<le> m \<Longrightarrow> face_ok m f"
  by (cases f) (auto simp: face_ok_def index_ok_def)

lemma face_ok_triple:
  "face_ok n (a, b, c) = (index_ok n a \<and> index_ok n b \<and> index_ok n c)"
  by (simp add: face_ok_def)

lemma faces_ok_mono: "list_all (face_ok n) fs \<Longrightarrow> n \<le> m \<Longrightarrow> list_all (face_ok m) fs"
  by (induction fs) (auto intro: face_ok_mono)

lemma grows_refl: "grows 0 0 st st"
  by (simp add: grows_def)

lemma grows_trans: "grows a b s s' \<Longrightarrow> grows c d s' s'' \<Longrightarrow> grows (a + c) (b + d) s s''"
  by (simp add: grows_def)

text \<open>Appending vertices, then faces whose indices lie in the new buffer.\<close>

lemma grows_append:
  assumes "list_all (face_ok (length (vertices st) + length ps)) fs"
      and "nv = length ps" and "nf = length fs"
  shows "grows nv nf st (st\<lparr>vertices := vertices st @ ps, faces := faces st @ fs\<rparr>)"
  using assms by (auto simp: grows_def faces_valid_def intro: faces_ok_mono)

lemma quad_grows:
  "grows 4 2 st
     (add_tri (int (length (vertices st))) (int (length (vertices st)) + 2) (int (length (vertices st)) + 3)
       (add_tri (int (length (vertices st))) (int (length (vertices st)) + 1) (int (length (vertices st)) + 2)
         (st\<lparr>vertices := vertices st @ [a, b, c, d]\<rparr>)))"
proof -
  let ?n = "int (length (vertices st))"
  have "list_all (face_ok (length (vertices st) + length [a, b, c, d]))
          [(?n, ?n + 1, ?n + 2), (?n, ?n + 2, ?n + 3)]"
    by (simp add: face_ok_def index_ok_def)
  from grows_append[OF this, of 4 2] show ?thesis by (simp add: add_tri_def)
qed

lemma outer_cell_grows:
  assumes "dt \<noteq> 0"
  shows "\<exists>s'. outer_cell P dt u1 u2 j st = Inr s' \<and> grows 4 2 st s'"
  using assms quad_grows[of st]
  by (simp add: outer_cell_def v_at_ok bind_err_Inr add_vertex_eq add.commute)


lemma py_range_length: "length (py_range n) = nat n"
  by (simp add: py_range_def)

lemma py_range_nonzero: "i \<in> set (py_range n) \<Longrightarrow> n \<noteq> 0"
  by (auto simp: py_range_def)

lemma py_range_empty: "n < 1 \<Longrightarrow> py_range n = []"
  by (simp add: py_range_def)

lemma for_each_grows:
  assumes "\<And>i s. i \<in> set xs \<Longrightarrow> m \<le> length (vertices s)
              \<Longrightarrow> \<exists>s'. body i s = Inr s' \<and> grows a b s s'"
      and "m \<le> length (vertices st)"
  shows "\<exists>s'. for_each xs body st = Inr s' \<and> grows (length xs * a) (length xs * b) st s'"
  using assms
proof (induction xs arbitrary: st)
  case Nil
  then show ?case by (simp add: grows_refl)
next
  case (Cons x xs)
  from Cons.prems(1)[of x st] Cons.prems(2)
  obtain s1 where s1: "body x st = Inr s1" "grows a b st s1"
    by auto
  have len: "m \<le> length (vertices s1)"
    using s1(2) Cons.prems(2) by (simp add: grows_def)
  have "\<exists>s'. for_each xs body s1 = Inr s' \<and> grows (length xs * a) (length xs * b) s1 s'"
    using Cons.prems(1) len by (intro Cons.IH) auto
  then obtain s2 where
    s2: "for_each xs body s1 = Inr s2" "grows (length xs * a) (length xs * b) s1 s2"
    by auto
  from grows_trans[OF s1(2) s2(2)] s1(1) s2(1) show ?case by simp
qed

lemma range_loop_grows_from:
  assumes "\<And>i s. i \<in> set (py_range n) \<Longrightarrow> m \<le> length (vertices s)
              \<Longrightarrow> \<exists>s'. body i s = Inr s' \<and> grows a b s s'"
      and "m \<le> length (vertices st)"
  shows "\<exists>s'. for_each (py_range n) body st = Inr s' \<and> grows (nat n * a) (nat n * b) st s'"
  using for_each_grows[of "py_range n" m body a b st, OF assms] by (simp add: py_range_length)

lemma range_loop_grows:
  assumes "\<And>i s. i \<in> set (py_range n) \<Longrightarrow> \<exists>s'. body i s = Inr s' \<and> grows a b s s'"
  shows "\<exists>s'. for_each (py_range n) body st = Inr s' \<and> grows (nat n * a) (nat n * b) st s'"
  by (rule range_loop_grows_from[where m = 0]) (simp_all add: assms)

lemma outer_row_grows:
  assumes "i \<in> set (py_range dt)"
  shows "\<exists>s'. outer_row P dt i st = Inr s' \<and> grows (nat dt * 4) (nat dt * 2) st s'"
proof -
  have nz: "dt \<noteq> 0" using assms by (rule py_range_nonzero)
  show ?thesis
    unfolding outer_row_def using nz
    by (simp add: truediv_ok bind_err_Inr range_loop_grows outer_cell_grows)
qed

lemma outer_shell_grows:
  "\<exists>s'. outer_shell P dt st = Inr s' \<and> grows (nat dt * (nat dt * 4)) (nat dt * (nat dt * 2)) st s'"
  unfolding outer_shell_def by (rule range_loop_grows) (rule outer_row_grows)


lemma fan_grows:
  assumes "0 \<le> c" and "c < int (length (vertices st))"
  shows "grows 2 1 st
     (add_tri c (int (length (vertices st))) (int (length (vertices st)) + 1)
        (st\<lparr>vertices := vertices st @ [a, b]\<rparr>))"
    and "grows 2 1 st
     (add_tri c (int (length (vertices st)) + 1) (int (length (vertices st)))
        (st\<lparr>vertices := vertices st @ [a, b]\<rparr>))"
proof -
  let ?n = "int (length (vertices st))"
  have "list_all (face_ok (length (vertices st) + length [a, b])) [(c, ?n, ?n + 1)]"
    using assms by (simp add: face_ok_def index_ok_def)
  from grows_append[OF this, of 2 1]
  show "grows 2 1 st (add_tri c ?n (?n + 1) (st\<lparr>vertices := vertices st @ [a, b]\<rparr>))"
    by (simp add: add_tri_def)
  have "list_all (face_ok (length (vertices st) + length [a, b])) [(c, ?n + 1, ?n)]"
    using assms by (simp add: face_ok_def index_ok_def)
  from grows_append[OF this, of 2 1]
  show "grows 2 1 st (add_tri c (?n + 1) ?n (st\<lparr>vertices := vertices st @ [a, b]\<rparr>))"
    by (simp add: add_tri_def)
qed

lemma center_grows: "grows 1 0 st (st\<lparr>vertices := vertices st @ [p]\<rparr>)"
  using grows_append[of st "[p]" "[]" 1 0] by simp

lemma bottom_fan_grows:
  assumes "dt \<noteq> 0" and "0 \<le> c" and "c < int (length (vertices st))"
  shows "\<exists>s'. bottom_fan P dt c j st = Inr s' \<and> grows 2 1 st s'"
  using assms(1) fan_grows(1)[OF assms(2,3)]
  by (simp add: bottom_fan_def v_at_ok bind_err_Inr add_vertex_eq add.commute)

lemma bottom_cap_grows:
  "\<exists>s'. bottom_cap P dt st = Inr s' \<and> grows (1 + nat dt * 2) (nat dt * 1) st s'"
proof -
  let ?c = "int (length (vertices st))"
  let ?st0 = "st\<lparr>vertices := vertices st @ [(0, - real_of_int (cylinderHeight P) / 2, 0)]\<rparr>"
  have "\<exists>s'. for_each (py_range dt) (bottom_fan P dt ?c) ?st0 = Inr s'
            \<and> grows (nat dt * 2) (nat dt * 1) ?st0 s'"
  proof (rule range_loop_grows_from[where m = "length (vertices st) + 1"])
    fix i and s :: mesh
    assume "i \<in> set (py_range dt)" and "length (vertices st) + 1 \<le> length (vertices s)"
    then show "\<exists>s'. bottom_fan P dt ?c i s = Inr s' \<and> grows 2 1 s s'"
      by (intro bottom_fan_grows) (auto dest: py_range_nonzero)
  qed simp
  then obtain s' where s': "for_each (py_range dt) (bottom_fan P dt ?c) ?st0 = Inr s'"
      "grows (nat dt * 2) (nat dt * 1) ?st0 s'"
    by auto
  from grows_trans[OF center_grows s'(2)] s'(1) show ?thesis
    by (simp add: bottom_cap_def add_vertex_eq)
qed

lemma transition_cell_grows:
  assumes "dt \<noteq> 0"
  shows "\<exists>s'. transition_cell P dt transTopY topR t1 t2 y1 y2 j st = Inr s' \<and> grows 4 2 st s'"
  using assms quad_grows[of st]
  by (simp add: transition_cell_def v_at_ok bind_err_Inr add_vertex_eq add.commute Let_def)

lemma transition_row_grows:
  assumes "i \<in> set (py_range dt)"
  shows "\<exists>s'. transition_row P dt transBottomY transTopY topR i st = Inr s'
            \<and> grows (nat dt * 4) (nat dt * 2) st s'"
proof -
  have nz: "dt \<noteq> 0" using assms by (rule py_range_nonzero)
  show ?thesis
    unfolding transition_row_def using nz
    by (simp add: truediv_ok bind_err_Inr range_loop_grows transition_cell_grows Let_def)
qed

lemma transition_skirt_grows:
  "\<exists>s'. transition_skirt P dt st = Inr s'
        \<and> grows (nat dt * (nat dt * 4)) (nat dt * (nat dt * 2)) st s'"
  unfolding transition_skirt_def Let_def by (rule range_loop_grows) (rule transition_row_grows)

lemma side_strip_grows:
  assumes "dt \<noteq> 0"
  shows "\<exists>s'. side_strip dt yb yt r i st = Inr s' \<and> grows 4 2 st s'"
  using assms quad_grows[of st]
  by (simp add: side_strip_def v_at_ok bind_err_Inr add_vertex_eq add.commute)

lemma mount_side_grows:
  "\<exists>s'. mount_side P dt st = Inr s' \<and> grows (nat dt * 4) (nat dt * 2) st s'"
  unfolding mount_side_def Let_def
  by (rule range_loop_grows) (auto intro: side_strip_grows dest: py_range_nonzero)

lemma top_fan_grows:
  assumes "dt \<noteq> 0" and "0 \<le> c" and "c < int (length (vertices st))"
  shows "\<exists>s'. top_fan dt y r c j st = Inr s' \<and> grows 2 1 st s'"
  using assms(1) fan_grows(2)[OF assms(2,3)]
  by (simp add: top_fan_def v_at_ok bind_err_Inr add_vertex_eq add.commute)

lemma top_cap_grows:
  "\<exists>s'. top_cap P dt st = Inr s' \<and> grows (1 + nat dt * 2) (nat dt * 1) st s'"
proof -
  let ?c = "int (length (vertices st))"
  let ?r = "mountCylinderOuterDiameter P / 2"
  let ?st0 = "st\<lparr>vertices := vertices st @ [(0, cylTopY P, 0)]\<rparr>"
  have "\<exists>s'. for_each (py_range dt) (top_fan dt (cylTopY P) ?r ?c) ?st0 = Inr s'
            \<and> grows (nat dt * 2) (nat dt * 1) ?st0 s'"
  proof (rule range_loop_grows_from[where m = "length (vertices st) + 1"])
    fix i and s :: mesh
    assume "i \<in> set (py_range dt)" and "length (vertices st) + 1 \<le> length (vertices s)"
    then show "\<exists>s'. top_fan dt (cylTopY P) ?r ?c i s = Inr s' \<and> grows 2 1 s s'"
      by (intro top_fan_grows) (auto dest: py_range_nonzero)
  qed simp
  then obtain s' where s': "for_each (py_range dt) (top_fan dt (cylTopY P) ?r ?c) ?st0 = Inr s'"
      "grows (nat dt * 2) (nat dt * 1) ?st0 s'"
    by auto
  from grows_trans[OF center_grows s'(2)] s'(1) show ?thesis
    by (simp add: top_cap_def add_vertex_eq Let_def)
qed

subsection \<open>The five regions in sequence\<close>

lemma build_chain:
  fixes P0 P :: Params and dt :: int
  assumes "P = update_feature_depth_max (update_transition P0)" and "dt = detail P0"
  shows "\<exists>s1 s2 s3 s4 s5.
      outer_shell P dt empty_mesh = Inr s1
    \<and> grows (nat dt * (nat dt * 4)) (nat dt * (nat dt * 2)) empty_mesh s1
    \<and> bottom_cap P dt s1 = Inr s2
    \<and> grows (1 + nat dt * 2) (nat dt * 1) s1 s2
    \<and> transition_skirt P dt s2 = Inr s3
    \<and> grows (nat dt * (nat dt * 4)) (nat dt * (nat dt * 2)) s2 s3
    \<and> mount_side P dt s3 = Inr s4
    \<and> grows (nat dt * 4) (nat dt * 2) s3 s4
    \<and> top_cap P dt s4 = Inr s5
    \<and> grows (1 + nat dt * 2) (nat dt * 1) s4 s5
    \<and> build_mesh_arrays P0 = Inr (P, vertices s5, faces s5)"
proof -
  obtain s1 where s1: "outer_shell P dt empty_mesh = Inr s1"
      "grows (nat dt * (nat dt * 4)) (nat dt * (nat dt * 2)) empty_mesh s1"
    using outer_shell_grows by blast
  obtain s2 where s2: "bottom_cap P dt s1 = Inr s2" "grows (1 + nat dt * 2) (nat dt * 1) s1 s2"
    using bottom_cap_grows by blast
  obtain s3 where s3: "transition_skirt P dt s2 = Inr s3"
      "grows (nat dt * (nat dt * 4)) (nat dt * (nat dt * 2)) s2 s3"
    using transition_skirt_grows by blast
  obtain s4 where s4: "mount_side P dt s3 = Inr s4" "grows (nat dt * 4) (nat dt * 2) s3 s4"
    using mount_side_grows by blast
  obtain s5 where s5: "top_cap P dt s4 = Inr s5" "grows (1 + nat dt * 2) (nat dt * 1) s4 s5"
    using top_cap_grows by blast
  have "build_mesh_arrays P0 = Inr (P, vertices s5, faces s5)"
    unfolding build_mesh_arrays_def Let_def detail_derived
    using s1(1) s2(1) s3(1) s4(1) s5(1)
    by (simp add: bind_err_Inr assms)
  with s1 s2 s3 s4 s5 show ?thesis by blast
qed

lemma faces_valid_empty: "faces_valid empty_mesh"
  by (simp add: faces_valid_def empty_mesh_def)

lemma grows_valid: "grows a b s s' \<Longrightarrow> faces_valid s \<Longrightarrow> faces_valid s'"
  by (simp add: grows_def)

lemma grows_vertices: "grows a b s s' \<Longrightarrow> length (vertices s') = length (vertices s) + a"
  by (simp add: grows_def)

lemma grows_faces: "grows a b s s' \<Longrightarrow> length (faces s') = length (faces s) + b"
  by (simp add: grows_def)

lemma build_summary:
  "\<exists>V F. build_mesh_arrays P0 = Inr (update_feature_depth_max (update_transition P0), V, F)
     \<and> length V = 8 * nat (detail P0) * nat (detail P0) + 8 * nat (detail P0) + 2
     \<and> length F = 4 * nat (detail P0) * nat (detail P0) + 4 * nat (detail P0)
     \<and> list_all (face_ok (length V)) F"
proof -
  let ?D = "nat (detail P0)"
  from build_chain[OF refl refl, of P0] obtain s1 s2 s3 s4 s5 where
    g: "grows (?D * (?D * 4)) (?D * (?D * 2)) empty_mesh s1"
       "grows (1 + ?D * 2) (?D * 1) s1 s2"
       "grows (?D * (?D * 4)) (?D * (?D * 2)) s2 s3"
       "grows (?D * 4) (?D * 2) s3 s4"
       "grows (1 + ?D * 2) (?D * 1) s4 s5"
    and b: "build_mesh_arrays P0
              = Inr (update_feature_depth_max (update_transition P0), vertices s5, faces s5)"
    by blast
  have total: "grows (?D * (?D * 4) + (1 + ?D * 2) + ?D * (?D * 4) + ?D * 4 + (1 + ?D * 2))
                     (?D * (?D * 2) + ?D * 1 + ?D * (?D * 2) + ?D * 2 + ?D * 1) empty_mesh s5"
    by (rule grows_trans[OF grows_trans[OF grows_trans[OF grows_trans[OF g(1) g(2)] g(3)] g(4)] g(5)])
  have v: "length (vertices s5) = 8 * ?D * ?D + 8 * ?D + 2"
    using grows_vertices[OF total] by (simp add: empty_mesh_def algebra_simps)
  have f: "length (faces s5) = 4 * ?D * ?D + 4 * ?D"
    using grows_faces[OF total] by (simp add: empty_mesh_def algebra_simps)
  have "faces_valid s5"
    using grows_valid[OF total faces_valid_empty] .
  then have "list_all (face_ok (length (vertices s5))) (faces s5)"
    by (simp add: faces_valid_def)
  with b v f show ?thesis by blast
qed

lemma degenerate_build:
  assumes "detail P0 < 1"
  shows "build_mesh_arrays P0 =
           Inr (update_feature_depth_max (update_transition P0),
                [(0, - real_of_int (cylinderHeight P0) / 2, 0),
                 (0, cylTopY (update_feature_depth_max (update_transition P0)), 0)],
                [])"
proof -
  have r: "py_range (detail P0) = []" using assms by (rule py_range_empty)
  have ch: "cylinderHeight (update_feature_depth_max (update_transition P0)) = cylinderHeight P0"
    by (simp add: update_feature_depth_max_def update_transition_def Let_def)
  show ?thesis
    unfolding build_mesh_arrays_def Let_def detail_derived
    by (simp add: r ch outer_shell_def bottom_cap_def transition_skirt_def mount_side_def
        top_cap_def bind_err_Inr add_vertex_eq empty_mesh_def Let_def)
qed

subsection \<open>Element counts\<close>

text \<open>
  Claim C3, as stated, fails for the bottom cap: besides the centre, every fan triangle
  appends two rim vertices of its own, so a cap of \<open>D\<close> triangles adds \<open>2 \<sqdot> D + 1\<close>
  vertices. With \<open>detail = 1\<close> the cap adds 3 vertices to an empty buffer, not 2.
\<close>

theorem bottom_cap_vertex_count:
  "vertex_count (bottom_cap (default_params\<lparr>detail := 1\<rparr>)
                   (detail (default_params\<lparr>detail := 1\<rparr>)) empty_mesh)
   \<noteq> Some (length (vertices empty_mesh) + (1 + 1))"
proof -
  obtain s where s: "bottom_cap (default_params\<lparr>detail := 1\<rparr>) 1 empty_mesh = Inr s"
      "grows (1 + nat 1 * 2) (nat 1 * 1) empty_mesh s"
    using bottom_cap_grows by blast
  from s(1) grows_vertices[OF s(2)] show ?thesis
    by (simp add: vertex_count_def empty_mesh_def)
qed

text \<open>
  Claim C3 (amended): for every parameter record with \<open>detail = D\<close> (a detail below 1
  counting as \<open>D = 0\<close>), \<open>build_mesh_arrays\<close> runs the five regions in order on the
  derived parameters without error and returns the final buffers; the outer shell emits
  exactly \<open>2 \<sqdot> D\<^sup>2\<close> triangles and \<open>4 \<sqdot> D\<^sup>2\<close> vertices, the bottom cap \<open>D\<close> triangles and
  \<open>2 \<sqdot> D + 1\<close> new vertices, the transition skirt \<open>2 \<sqdot> D\<^sup>2\<close> triangles, the side wall of
  the mount cylinder \<open>2 \<sqdot> D\<close> triangles and the top cap \<open>D\<close> triangles.
\<close>

theorem mesh_element_counts:
  "(let P = update_feature_depth_max (update_transition P0);
        dt = detail P;
        D = nat dt
    in \<exists>s1 s2 s3 s4 s5.
         outer_shell P dt empty_mesh = Inr s1
       \<and> length (faces s1) = 2 * D * D
       \<and> length (vertices s1) = 4 * D * D
       \<and> bottom_cap P dt s1 = Inr s2
       \<and> length (faces s2) = length (faces s1) + D
       \<and> length (vertices s2) = length (vertices s1) + (2 * D + 1)
       \<and> transition_skirt P dt s2 = Inr s3
       \<and> length (faces s3) = length (faces s2) + 2 * D * D
       \<and> mount_side P dt s3 = Inr s4
       \<and> length (faces s4) = length (faces s3) + 2 * D
       \<and> top_cap P dt s4 = Inr s5
       \<and> length (faces s5) = length (faces s4) + D
       \<and> build_mesh_arrays P0 = Inr (P, vertices s5, faces s5))"
proof -
  let ?P = "update_feature_depth_max (update_transition P0)"
  let ?D = "nat (detail P0)"
  from build_chain[OF refl refl, of P0] obtain s1 s2 s3 s4 s5 where
    c: "outer_shell ?P (detail P0) empty_mesh = Inr s1"
       "grows (?D * (?D * 4)) (?D * (?D * 2)) empty_mesh s1"
       "bottom_cap ?P (detail P0) s1 = Inr s2"
       "grows (1 + ?D * 2) (?D * 1) s1 s2"
       "transition_skirt ?P (detail P0) s2 = Inr s3"
       "grows (?D * (?D * 4)) (?D * (?D * 2)) s2 s3"
       "mount_side ?P (detail P0) s3 = Inr s4"
       "grows (?D * 4) (?D * 2) s3 s4"
       "top_cap ?P (detail P0) s4 = Inr s5"
       "grows (1 + ?D * 2) (?D * 1) s4 s5"
       "build_mesh_arrays P0 = Inr (?P, vertices s5, faces s5)"
    by blast
  have e: "length (vertices empty_mesh) = 0" "length (faces empty_mesh) = 0"
    by (simp_all add: empty_mesh_def)
  have f1: "length (faces s1) = 2 * ?D * ?D"
    using grows_faces[OF c(2)] e by (simp add: mult_ac)
  have v1: "length (vertices s1) = 4 * ?D * ?D"
    using grows_vertices[OF c(2)] e by (simp add: mult_ac)
  have f2: "length (faces s2) = length (faces s1) + ?D"
    using grows_faces[OF c(4)] by simp
  have v2: "length (vertices s2) = length (vertices s1) + (2 * ?D + 1)"
    using grows_vertices[OF c(4)] by (simp add: mult_ac)
  have f3: "length (faces s3) = length (faces s2) + 2 * ?D * ?D"
    using grows_faces[OF c(6)] by (simp add: mult_ac)
  have f4: "length (faces s4) = length (faces s3) + 2 * ?D"
    using grows_faces[OF c(8)] by (simp add: mult_ac)
  have f5: "length (faces s5) = length (faces s4) + ?D"
    using grows_faces[OF c(10)] by simp
  show ?thesis
    unfolding Let_def detail_derived
    using c(1,3,5,7,9,11) f1 v1 f2 v2 f3 f4 f5 by blast
qed

text \<open>
  At the defaults (\<open>detail = 120\<close>) the builder returns
  \<open>2 \<sqdot> 120\<^sup>2 + 120 + 2 \<sqdot> 120\<^sup>2 + 2 \<sqdot> 120 + 120 = 58080\<close> triangles.
\<close>

theorem mesh_element_counts_witness:
  "\<exists>P V F. build_mesh_arrays default_params = Inr (P, V, F) \<and> length F = 58080"
proof -
  have d: "nat (detail default_params) = 120"
    by (simp add: default_params_def)
  from mesh_element_counts[of default_params] obtain s1 s2 s3 s4 s5 :: mesh where
    c: "length (faces s1) = 2 * 120 * 120"
       "length (faces s2) = length (faces s1) + 120"
       "length (faces s3) = length (faces s2) + 2 * 120 * 120"
       "length (faces s4) = length (faces s3) + 2 * 120"
       "length (faces s5) = length (faces s4) + 120"
       "build_mesh_arrays default_params
          = Inr (update_feature_depth_max (update_transition default_params),
                 vertices s5, faces s5)"
    unfolding Let_def detail_derived d by blast
  have "length (faces s5) = 58080"
    using c(1-5) by simp
  with c(6) show ?thesis by blast
qed

subsection \<open>Degenerate detail\<close>

text \<open>
  Claim C4, as stated, fails: the two cap centres are appended outside the loops, so
  with \<open>detail = 0\<close> the returned vertex sequence is not empty.
\<close>

theorem degenerate_detail_vertices_not_empty:
  "result_vertices (build_mesh_arrays (default_params\<lparr>detail := 0\<rparr>)) \<noteq> Some []"
proof -
  have "detail (default_params\<lparr>detail := 0\<rparr>) < 1" by simp
  from degenerate_build[OF this] show ?thesis by (simp add: result_vertices_def)
qed

text \<open>
  Claim C4 (amended): for every parameter record with \<open>detail < 1\<close>,
  \<open>build_mesh_arrays\<close> raises no error and returns an empty triangle sequence and a
  vertex sequence of exactly two vertices, the centre of the bottom cap
  \<open>(0, -cylinderHeight / 2, 0)\<close> and the centre of the top cap \<open>(0, cylTopY, 0)\<close>.
\<close>

theorem degenerate_detail_output:
  assumes "detail P0 < 1"
  shows "build_mesh_arrays P0 =
           Inr (update_feature_depth_max (update_transition P0),
                [(0, - real_of_int (cylinderHeight P0) / 2, 0),
                 (0, cylTopY (update_feature_depth_max (update_transition P0)), 0)],
                [])"
  using assms by (rule degenerate_build)

theorem degenerate_detail_output_witness:
  "detail (default_params\<lparr>detail := 0\<rparr>) < 1
   \<and> build_mesh_arrays (default_params\<lparr>detail := 0\<rparr>) =
       Inr (update_feature_depth_max (update_transition (default_params\<lparr>detail := 0\<rparr>)),
            [(0, - 40, 0),
             (0, cylTopY (update_feature_depth_max
                            (update_transition (default_params\<lparr>detail := 0\<rparr>))), 0)],
            [])"
proof -
  have h: "detail (default_params\<lparr>detail := 0\<rparr>) < 1" by simp
  have c: "cylinderHeight (default_params\<lparr>detail := 0\<rparr>) = 80"
    by (simp add: default_params_def)
  from degenerate_detail_output[OF h] h c show ?thesis by simp
qed

subsection \<open>Face indices\<close>

text \<open>
  Claim C9: for every parameter record, \<open>build_mesh_arrays\<close> returns without error,
  and each of the three indices of every returned triangle is at least 0 and strictly
  less than the number of returned vertices.
\<close>

theorem face_indices_valid:
  "\<exists>P' V F. build_mesh_arrays P = Inr (P', V, F)
     \<and> (\<forall>(a, b, c) \<in> set F.
           0 \<le> a \<and> a < int (length V) \<and> 0 \<le> b \<and> b < int (length V)
         \<and> 0 \<le> c \<and> c < int (length V))"
proof -
  from build_summary[of P] obtain V F where
    b: "build_mesh_arrays P = Inr (update_feature_depth_max (update_transition P), V, F)"
    and ok: "list_all (face_ok (length V)) F"
    by blast
  from ok have "\<forall>(a, b, c) \<in> set F.
           0 \<le> a \<and> a < int (length V) \<and> 0 \<le> b \<and> b < int (length V)
         \<and> 0 \<le> c \<and> c < int (length V)"
    by (auto simp: list_all_iff face_ok_def index_ok_def)
  with b show ?thesis by blast
qed

text \<open>With \<open>detail = 1\<close> the builder returns 8 triangles, all with valid indices.\<close>

theorem face_indices_valid_witness:
  "\<exists>P' V F. build_mesh_arrays (default_params\<lparr>detail := 1\<rparr>) = Inr (P', V, F)
     \<and> length F = 8
     \<and> (\<forall>(a, b, c) \<in> set F.
           0 \<le> a \<and> a < int (length V) \<and> 0 \<le> b \<and> b < int (length V)
         \<and> 0 \<le> c \<and> c < int (length V))"
proof -
  from face_indices_valid[of "default_params\<lparr>detail := 1\<rparr>"] obtain P' V F where
    r: "build_mesh_arrays (default_params\<lparr>detail := 1\<rparr>) = Inr (P', V, F)"
    and ok: "\<forall>(a, b, c) \<in> set F.
           0 \<le> a \<and> a < int (length V) \<and> 0 \<le> b \<and> b < int (length V)
         \<and> 0 \<le> c \<and> c < int (length V)"
    by blast
  from build_summary[of "default_params\<lparr>detail := 1\<rparr>"] obtain V' F' where
    r': "build_mesh_arrays (default_params\<lparr>detail := 1\<rparr>)
           = Inr (update_feature_depth_max (update_transition (default_params\<lparr>detail := 1\<rparr>)),
                  V', F')"
    and n: "length F' = 4 * nat (detail (default_params\<lparr>detail := 1\<rparr>))
                          * nat (detail (default_params\<lparr>detail := 1\<rparr>))
                        + 4 * nat (detail (default_params\<lparr>detail := 1\<rparr>))"
    by blast
  from r r' have "F = F'" by simp
  with n have "length F = 8" by simp
  with r ok show ?thesis by blast
qed

subsection \<open>Effect on the parameters\<close>

text \<open>
  Claim C10: for every parameter record \<open>P\<close>, the record \<open>P'\<close> that
  \<open>build_mesh_arrays\<close> leaves behind is \<open>P\<close> with new values in the four derived
  fields \<open>transitionWidth\<close>, \<open>transitionHeight\<close>, \<open>featureDepthMax\<close> and
  \<open>featureDepth\<close> only; every other field holds the value it had before the call.
\<close>

theorem build_changes_derived_fields_only:
  "\<exists>P' V F. build_mesh_arrays P = Inr (P', V, F)
     \<and> P' = P\<lparr>transitionWidth := transitionWidth P',
                transitionHeight := transitionHeight P',
                featureDepthMax := featureDepthMax P',
                featureDepth := featureDepth P'\<rparr>"
  using build_summary[of P] derived_frame[of P] by blast

text \<open>
  At the defaults the call leaves the shape inputs as they were and sets the transition
  width to 8.5.
\<close>

theorem build_changes_derived_fields_only_witness:
  "\<exists>P' V F. build_mesh_arrays default_params = Inr (P', V, F)
     \<and> topDiameter P' = 30 \<and> middleDiameter P' = 70 \<and> bottomDiameter P' = 60
     \<and> cylinderHeight P' = 80 \<and> featureCount P' = 6 \<and> detail P' = 120
     \<and> designMode P' = 1 \<and> interpolation P' = 0 \<and> overhangAngle P' = 30
     \<and> mountCylinderOuterDiameter P' = 13"
proof -
  from build_changes_derived_fields_only[of default_params] obtain P' V F where
    r: "build_mesh_arrays default_params = Inr (P', V, F)"
    and p: "P' = default_params\<lparr>transitionWidth := transitionWidth P',
                transitionHeight := transitionHeight P',
                featureDepthMax := featureDepthMax P',
                featureDepth := featureDepth P'\<rparr>"
    by blast
  have "topDiameter P' = 30 \<and> middleDiameter P' = 70 \<and> bottomDiameter P' = 60
     \<and> cylinderHeight P' = 80 \<and> featureCount P' = 6 \<and> detail P' = 120
     \<and> designMode P' = 1 \<and> interpolation P' = 0 \<and> overhangAngle P' = 30
     \<and> mountCylinderOuterDiameter P' = 13"
    by (subst p, simp add: default_params_def)+
  with r show ?thesis by blast
qed

subsection \<open>The builder derives the parameters itself\<close>

text \<open>
  Claim C8: \<open>build_mesh_arrays\<close> runs \<open>update_transition\<close> and then
  \<open>update_feature_depth_max\<close> on its argument before sampling, so the parameters it
  leaves behind are the derived ones; the derivation is idempotent; and the result for a
  record on which the two steps were already run in that order is the result for the
  record itself.
\<close>

theorem build_rederives_parameters:
  "(\<exists>V F. build_mesh_arrays P = Inr (update_feature_depth_max (update_transition P), V, F))
   \<and> update_feature_depth_max (update_transition
         (update_feature_depth_max (update_transition P)))
       = update_feature_depth_max (update_transition P)
   \<and> build_mesh_arrays (update_feature_depth_max (update_transition P)) = build_mesh_arrays P"
proof (intro conjI)
  show "\<exists>V F. build_mesh_arrays P = Inr (update_feature_depth_max (update_transition P), V, F)"
    using build_summary[of P] by blast
  show "update_feature_depth_max (update_transition
          (update_feature_depth_max (update_transition P)))
        = update_feature_depth_max (update_transition P)"
    by (rule derive_idem)
  show "build_mesh_arrays (update_feature_depth_max (update_transition P)) = build_mesh_arrays P"
    unfolding build_mesh_arrays_def by (simp only: derive_idem)
qed

end
